theory Spec2Isabelle
  imports Main "HOL-Library.Sublist" "HOL-Library.AList"
begin

section \<open>Text: the operations of Python's \<open>str\<close> that the gateway uses\<close>

text \<open>
  A Python \<open>str\<close> is modelled as a \<open>string\<close>, one \<open>char\<close> per code point, read as
  ASCII: the letters are \<open>a\<close>..\<open>z\<close> and \<open>A\<close>..\<open>Z\<close>, the digits \<open>0\<close>..\<open>9\<close>, and a
  code point above 127 is a symbol without case that is neither white space nor
  alphanumeric. Query text and table names outside ASCII are outside this model.
\<close>

definition newline :: char where
  "newline = CHR 0x0A"

definition quote :: char where
  "quote = CHR 0x27"

definition ascii_lowercase :: string where
  "ascii_lowercase = ''abcdefghijklmnopqrstuvwxyz''"

definition ascii_uppercase :: string where
  "ascii_uppercase = ''ABCDEFGHIJKLMNOPQRSTUVWXYZ''"

definition ascii_digits :: string where
  "ascii_digits = ''0123456789''"

definition ascii_whitespace :: string where
  \<comment> \<open>tab, line feed, vertical tab, form feed, carriage return, the four separators
      0x1C..0x1F, and the space\<close>
  "ascii_whitespace =
     [CHR 0x09, CHR 0x0A, CHR 0x0B, CHR 0x0C, CHR 0x0D, CHR 0x1C, CHR 0x1D, CHR 0x1E, CHR 0x1F,
      CHR 0x20]"

definition is_space :: "char \<Rightarrow> bool" where
  \<comment> \<open>\<open>str.isspace\<close> on ASCII, also the class \<open>\s\<close> of \<open>re\<close>\<close>
  "is_space c = (c \<in> set ascii_whitespace)"

definition is_lower :: "char \<Rightarrow> bool" where
  "is_lower c = (c \<in> set ascii_lowercase)"

definition is_upper :: "char \<Rightarrow> bool" where
  "is_upper c = (c \<in> set ascii_uppercase)"

definition is_digit :: "char \<Rightarrow> bool" where
  "is_digit c = (c \<in> set ascii_digits)"

definition is_alnum :: "char \<Rightarrow> bool" where
  "is_alnum c = (is_lower c \<or> is_upper c \<or> is_digit c)"

fun translate :: "string \<Rightarrow> string \<Rightarrow> char \<Rightarrow> char" where
  \<comment> \<open>the character of the second alphabet at the place \<open>c\<close> has in the first, else \<open>c\<close>\<close>
  "translate (a # as) (b # bs) c = (if c = a then b else translate as bs c)"
| "translate as bs c = c"

definition upper_char :: "char \<Rightarrow> char" where
  "upper_char c = translate ascii_lowercase ascii_uppercase c"

definition upper :: "string \<Rightarrow> string" where
  \<comment> \<open>\<open>s.upper()\<close>\<close>
  "upper s = map upper_char s"

definition lstrip :: "string \<Rightarrow> string" where
  "lstrip s = dropWhile is_space s"

definition rstrip :: "string \<Rightarrow> string" where
  "rstrip s = rev (dropWhile is_space (rev s))"

definition strip :: "string \<Rightarrow> string" where
  \<comment> \<open>\<open>s.strip()\<close>\<close>
  "strip s = rstrip (lstrip s)"

definition rstrip_char :: "char \<Rightarrow> string \<Rightarrow> string" where
  \<comment> \<open>\<open>s.rstrip(c)\<close> for a one-character argument\<close>
  "rstrip_char c s = rev (dropWhile (\<lambda>d. d = c) (rev s))"

fun contains :: "string \<Rightarrow> string \<Rightarrow> bool" where
  \<comment> \<open>\<open>sub in s\<close>\<close>
  "contains sub [] = (sub = [])"
| "contains sub (c # cs) = (prefix sub (c # cs) \<or> contains sub cs)"

definition isalnum :: "string \<Rightarrow> bool" where
  \<comment> \<open>\<open>s.isalnum()\<close>: at least one character, all of them alphanumeric\<close>
  "isalnum s = (s \<noteq> [] \<and> list_all is_alnum s)"

definition replace_char :: "char \<Rightarrow> string \<Rightarrow> string \<Rightarrow> string" where
  \<comment> \<open>\<open>s.replace(c, new)\<close> for a one-character \<open>c\<close>\<close>
  "replace_char c new s = concat (map (\<lambda>d. if d = c then new else [d]) s)"

section \<open>Regular expressions: the fragment of \<open>re\<close> the validator's patterns use\<close>

datatype cls =
    Space       \<comment> \<open>\<open>\s\<close>\<close>
  | Dot         \<comment> \<open>\<open>.\<close>: any character but a line feed\<close>
  | IdentStart  \<comment> \<open>\<open>[a-zA-Z_]\<close>\<close>
  | IdentRest   \<comment> \<open>\<open>[a-zA-Z0-9_]\<close>\<close>

fun in_cls :: "cls \<Rightarrow> char \<Rightarrow> bool" where
  "in_cls Space c = is_space c"
| "in_cls Dot c = (c \<noteq> newline)"
| "in_cls IdentStart c = (is_lower c \<or> is_upper c \<or> c = CHR ''_'')"
| "in_cls IdentRest c = (is_lower c \<or> is_upper c \<or> is_digit c \<or> c = CHR ''_'')"

datatype atom =
    LitI string        \<comment> \<open>literal text, letters compared without case (\<open>re.IGNORECASE\<close>)\<close>
  | AltI "string list" \<comment> \<open>\<open>(A|B|...)\<close> of such literals\<close>
  | One cls            \<comment> \<open>one character of a class\<close>
  | Star cls           \<comment> \<open>\<open>c*\<close>\<close>
  | Plus cls           \<comment> \<open>\<open>c+\<close>\<close>
  | Eol                \<comment> \<open>\<open>$\<close>: the end of the text, or just before a line feed that ends it\<close>

type_synonym regex = "atom list"

fun lit_prefix :: "string \<Rightarrow> string \<Rightarrow> bool" where
  \<comment> \<open>the literal matches at the start of \<open>s\<close>, letters compared without case\<close>
  "lit_prefix [] s = True"
| "lit_prefix (a # l) [] = False"
| "lit_prefix (a # l) (c # s) = (if upper_char c = upper_char a then lit_prefix l s else False)"

fun star_rests :: "(char \<Rightarrow> bool) \<Rightarrow> string \<Rightarrow> string list" where
  \<comment> \<open>what can be left of \<open>s\<close> after \<open>c*\<close> has consumed some run of its start\<close>
  "star_rests P [] = [[]]"
| "star_rests P (c # cs) = (c # cs) # (if P c then star_rests P cs else [])"

definition plus_rests :: "(char \<Rightarrow> bool) \<Rightarrow> string \<Rightarrow> string list" where
  "plus_rests P s = (case s of [] \<Rightarrow> [] | c # cs \<Rightarrow> if P c then star_rests P cs else [])"

fun matches_at :: "regex \<Rightarrow> string \<Rightarrow> bool" where
  \<comment> \<open>the pattern matches some prefix of \<open>s\<close> (backtracking over every repetition count)\<close>
  "matches_at [] s = True"
| "matches_at (LitI l # r) s = (lit_prefix l s \<and> matches_at r (drop (length l) s))"
| "matches_at (AltI ls # r) s =
     list_ex (\<lambda>l. lit_prefix l s \<and> matches_at r (drop (length l) s)) ls"
| "matches_at (One k # r) s =
     (case s of [] \<Rightarrow> False | c # cs \<Rightarrow> in_cls k c \<and> matches_at r cs)"
| "matches_at (Star k # r) s = list_ex (matches_at r) (star_rests (in_cls k) s)"
| "matches_at (Plus k # r) s = list_ex (matches_at r) (plus_rests (in_cls k) s)"
| "matches_at (Eol # r) s = ((s = [] \<or> s = [newline]) \<and> matches_at r s)"

definition re_match :: "regex \<Rightarrow> string \<Rightarrow> bool" where
  \<comment> \<open>\<open>re.match(p, s)\<close> is not \<open>None\<close>: a match that starts at the start of \<open>s\<close>\<close>
  "re_match p s = matches_at p s"

definition re_search :: "regex \<Rightarrow> string \<Rightarrow> bool" where
  \<comment> \<open>\<open>re.search(p, s, re.IGNORECASE)\<close> is not \<open>None\<close>: a match that starts anywhere\<close>
  "re_search p s = list_ex (matches_at p) (suffixes s)"

section \<open>\<open>src/security.py\<close>: QueryValidator\<close>

definition BLOCKED_KEYWORDS :: "string list" where
  \<comment> \<open>A Python set: the loop over it visits the keywords in an order the source does not
      fix. The order decides only which keyword a rejection names.\<close>
  "BLOCKED_KEYWORDS =
     [''INSERT'', ''UPDATE'', ''DELETE'', ''DROP'', ''CREATE'', ''ALTER'',
      ''TRUNCATE'', ''GRANT'', ''REVOKE'', ''EXEC'', ''EXECUTE'', ''CALL'',
      ''PROCEDURE'', ''FUNCTION'', ''TRIGGER'', ''SCHEMA'', ''DATABASE'']"

definition INJECTION_PATTERNS :: "regex list" where
  "INJECTION_PATTERNS =
     [[LitI '';'', Star Space,
       AltI [''DROP'', ''DELETE'', ''UPDATE'', ''INSERT'', ''CREATE'', ''ALTER'', ''TRUNCATE'']],
      [LitI ''--''],
      [LitI ''/*'', Star Dot, LitI ''*/''],
      [LitI ''UNION'', Plus Space, LitI ''SELECT''],
      [LitI [quote], Star Space, LitI ''OR'', Star Space, LitI [quote]],
      [LitI [quote], Star Space, LitI '';'', Star Space],
      [LitI ''xp_cmdshell''],
      [LitI ''sp_executesql'']]"

definition blocked_message :: "string \<Rightarrow> string" where
  "blocked_message keyword = ''Blocked keyword '' @ [quote] @ keyword @ [quote] @ '' found in query''"

definition validate_query :: "string \<Rightarrow> bool \<times> string" where
  "validate_query query =
     (if query = [] \<or> strip query = [] then (False, ''Empty query not allowed'')
      else
        let query_upper = strip (upper query) in
        if \<not> prefix ''SELECT'' query_upper then (False, ''Only SELECT queries are allowed'')
        else
          (case find (\<lambda>keyword. contains keyword query_upper) BLOCKED_KEYWORDS of
            Some keyword \<Rightarrow> (False, blocked_message keyword)
          | None \<Rightarrow>
              if list_ex (\<lambda>pattern. re_search pattern query) INJECTION_PATTERNS
              then (False, ''Potentially malicious pattern detected'')
              else if count_list query (CHR '';'') > 1
              then (False, ''Multiple statements not allowed'')
              else (True, [])))"

definition TABLE_NAME_PATTERN :: regex where
  \<comment> \<open>\<open>^[a-zA-Z_][a-zA-Z0-9_]*$\<close>; \<open>re.match\<close> anchors the start, which is all \<open>^\<close> asks\<close>
  "TABLE_NAME_PATTERN = [One IdentStart, Star IdentRest, Eol]"

definition sanitize_table_name :: "string \<Rightarrow> bool \<times> string" where
  "sanitize_table_name table_name =
     (if table_name = [] then (False, ''Table name cannot be empty'')
      else if \<not> re_match TABLE_NAME_PATTERN table_name then (False, ''Invalid table name format'')
      else if length table_name > 63 then (False, ''Table name too long'')
      else (True, []))"

section \<open>Python values, exceptions and formatting\<close>

text \<open>
  The values a tool call's arguments and a database row can hold: \<open>None\<close>, integers and
  strings. JSON booleans, floats, arrays and objects are not modelled.
\<close>

datatype pyval = PNone | PInt int | PStr string

fun truthy :: "pyval \<Rightarrow> bool" where
  "truthy PNone = False"
| "truthy (PInt n) = (n \<noteq> 0)"
| "truthy (PStr s) = (s \<noteq> [])"

type_synonym pydict = "(string \<times> pyval) list"

definition py_dict :: "(string \<times> pyval) list \<Rightarrow> pydict" where
  \<comment> \<open>\<open>dict(pairs)\<close>: a later pair replaces the value of an earlier one with its key\<close>
  "py_dict pairs = foldl (\<lambda>d (k, v). AList.update k v d) [] pairs"

text \<open>
  Every exception of the model is an instance of Python's \<open>Exception\<close>; each carries the
  text that \<open>str(e)\<close> gives. \<open>ClientError\<close> is botocore's, \<open>PsycopgError\<close> stands for
  \<open>psycopg.Error\<close> and its subclasses, \<open>OtherError\<close> for any other exception of a
  library. \<open>BaseException\<close>s that are not \<open>Exception\<close>s (a cancelled task, an interrupt)
  are not modelled. The texts of the interpreter's own exceptions are CPython 3.11's.
\<close>

datatype exn =
    Exception string
  | ValueError string
  | TypeError string
  | AttributeError string
  | KeyError string
  | IndexError string
  | ClientError string
  | PsycopgError string
  | OtherError string

fun str_exn :: "exn \<Rightarrow> string" where
  "str_exn (Exception s) = s"
| "str_exn (ValueError s) = s"
| "str_exn (TypeError s) = s"
| "str_exn (AttributeError s) = s"
| "str_exn (KeyError s) = s"
| "str_exn (IndexError s) = s"
| "str_exn (ClientError s) = s"
| "str_exn (PsycopgError s) = s"
| "str_exn (OtherError s) = s"

fun is_ClientError :: "exn \<Rightarrow> bool" where
  "is_ClientError (ClientError s) = True"
| "is_ClientError e = False"

fun is_PsycopgError :: "exn \<Rightarrow> bool" where
  "is_PsycopgError (PsycopgError s) = True"
| "is_PsycopgError e = False"

definition quoted :: "string \<Rightarrow> string" where
  "quoted s = [quote] @ s @ [quote]"

definition key_error :: "string \<Rightarrow> exn" where
  \<comment> \<open>\<open>d[k]\<close> on a missing key: \<open>str\<close> of a \<open>KeyError\<close> is the key in quotes\<close>
  "key_error k = KeyError (quoted k)"

datatype 'a reply = Returns 'a | Raises exn

fun str_nat :: "nat \<Rightarrow> string" where
  "str_nat n =
     (if n < 10 then [char_of (48 + n)] else str_nat (n div 10) @ [char_of (48 + n mod 10)])"

definition str_int :: "int \<Rightarrow> string" where
  \<comment> \<open>\<open>str(i)\<close>, also what an f-string writes for an \<open>int\<close>\<close>
  "str_int i = (if i < 0 then ''-'' @ str_nat (nat (- i)) else str_nat (nat i))"

fun join :: "string \<Rightarrow> string list \<Rightarrow> string" where
  \<comment> \<open>\<open>sep.join(xs)\<close>\<close>
  "join sep [] = []"
| "join sep [x] = x"
| "join sep (x # y # ys) = x @ sep @ join sep (y # ys)"

section \<open>The outside: the secrets service and the database driver\<close>

text \<open>
  Each call the code makes to boto3 or psycopg is recorded as an event; the replies are
  parameters of the model, functions of the events so far (the call itself being the last
  of them). \<open>cursor_execute\<close> stands for \<open>conn.cursor()\<close>, \<open>cursor.execute\<close>,
  \<open>cursor.description\<close> and \<open>cursor.fetchall()\<close> together: it returns the description
  (\<open>None\<close> when the statement gives no rows) and the rows, or raises. \<open>repr_str\<close> is
  Python's \<open>repr\<close> of a \<open>str\<close>. Calls to the logger are left out.
\<close>

datatype event =
    GetSecretValue string               \<comment> \<open>\<open>secrets_client.get_secret_value(SecretId=...)\<close>\<close>
  | Sleep int                           \<comment> \<open>\<open>time.sleep(seconds)\<close>\<close>
  | Connect pydict                      \<comment> \<open>\<open>psycopg.connect(**kwargs)\<close>\<close>
  | Execute string "pyval list option"  \<comment> \<open>\<open>cursor.execute(query, params)\<close>\<close>
  | Rollback                            \<comment> \<open>\<open>conn.rollback()\<close>\<close>

record world =
  get_secret_value :: "event list \<Rightarrow> pydict reply"
  psycopg_connect :: "event list \<Rightarrow> unit reply"
  cursor_execute :: "event list \<Rightarrow> (string list option \<times> pyval list list) reply"
  conn_rollback :: "event list \<Rightarrow> unit reply"
  repr_str :: "string \<Rightarrow> string"

definition repr_val :: "world \<Rightarrow> pyval \<Rightarrow> string" where
  "repr_val w v = (case v of PNone \<Rightarrow> ''None'' | PInt i \<Rightarrow> str_int i | PStr s \<Rightarrow> repr_str w s)"

definition str_val :: "pyval \<Rightarrow> string" where
  "str_val v = (case v of PNone \<Rightarrow> ''None'' | PInt i \<Rightarrow> str_int i | PStr s \<Rightarrow> s)"

definition repr_list :: "('a \<Rightarrow> string) \<Rightarrow> 'a list \<Rightarrow> string" where
  "repr_list f xs = ''['' @ join '', '' (map f xs) @ '']''"

definition repr_dict :: "world \<Rightarrow> pydict \<Rightarrow> string" where
  "repr_dict w d =
     ''{'' @ join '', '' (map (\<lambda>(k, v). repr_str w k @ '': '' @ repr_val w v) d) @ ''}''"

section \<open>\<open>src/config.py\<close>: Config\<close>

record config =
  secret_arn :: "string option"  \<comment> \<open>\<open>os.getenv('SECRET_ARN')\<close>: \<open>None\<close> when unset\<close>
  aws_region :: string
  mcp_server_name :: string
  log_level :: string
  max_query_rows :: int
  connection_timeout :: int

definition validate :: "config \<Rightarrow> exn + bool" where
  "validate c =
     (if (case config.secret_arn c of None \<Rightarrow> True | Some arn \<Rightarrow> arn = [])
      then Inl (ValueError ''SECRET_ARN environment variable is required'')
      else if aws_region c = []
      then Inl (ValueError ''AWS_REGION environment variable is required'')
      else Inr True)"

section \<open>\<open>src/database.py\<close>: DatabaseManager\<close>

record connection =
  closed :: bool

record db_manager =
  secret_arn :: string
  region_name :: string
  max_retries :: int
  db_credentials :: "pydict option"      \<comment> \<open>\<open>_db_credentials\<close>\<close>
  db_connection :: "connection option"   \<comment> \<open>\<open>_connection\<close>\<close>
  trace :: "event list"                  \<comment> \<open>the calls made to the outside so far, oldest first\<close>

definition new_db_manager :: "string \<Rightarrow> string \<Rightarrow> int \<Rightarrow> db_manager" where
  \<comment> \<open>\<open>__init__\<close>\<close>
  "new_db_manager arn region retries =
     \<lparr>secret_arn = arn, region_name = region, max_retries = retries,
      db_credentials = None, db_connection = None, trace = []\<rparr>"

definition log :: "event \<Rightarrow> db_manager \<Rightarrow> db_manager" where
  "log e m = m\<lparr>trace := trace m @ [e]\<rparr>"

fun get_secret_loop ::
  "world \<Rightarrow> nat list \<Rightarrow> db_manager \<Rightarrow> (exn + pydict option) \<times> db_manager" where
  \<comment> \<open>\<open>for attempt in range(self.max_retries)\<close>; a loop that runs out returns \<open>None\<close>\<close>
  "get_secret_loop w [] m = (Inr None, m)"
| "get_secret_loop w (attempt # rest) m =
     (let m1 = log (GetSecretValue (secret_arn m)) m in
      case get_secret_value w (trace m1) of
        Returns credentials \<Rightarrow> (Inr (Some credentials), m1\<lparr>db_credentials := Some credentials\<rparr>)
      | Raises e \<Rightarrow>
          if is_ClientError e then
            if int attempt = max_retries m1 - 1
            then (Inl (Exception (''Failed to retrieve secret after '' @ str_int (max_retries m1)
                                   @ '' attempts: '' @ str_exn e)), m1)
            else get_secret_loop w rest (log (Sleep (2 ^ attempt)) m1)
          else (Inl e, m1))"

definition get_secret :: "world \<Rightarrow> db_manager \<Rightarrow> (exn + pydict option) \<times> db_manager" where
  "get_secret w m =
     (if (case db_credentials m of None \<Rightarrow> False | Some c \<Rightarrow> c \<noteq> [])
      then (Inr (db_credentials m), m)
      else get_secret_loop w [0..<nat (max_retries m)] m)"

definition connect_kwargs :: "pydict option \<Rightarrow> exn + pydict" where
  \<comment> \<open>the keyword arguments of \<open>psycopg.connect\<close>, evaluated in the order written\<close>
  "connect_kwargs credentials =
     (case credentials of
        None \<Rightarrow> Inl (TypeError (quoted ''NoneType'' @ '' object is not subscriptable''))
      | Some c \<Rightarrow>
          (case map_of c ''host'' of None \<Rightarrow> Inl (key_error ''host'') | Some host \<Rightarrow>
           let port = (case map_of c ''port'' of None \<Rightarrow> PInt 5432 | Some p \<Rightarrow> p) in
           case map_of c ''dbname'' of None \<Rightarrow> Inl (key_error ''dbname'') | Some dbname \<Rightarrow>
           case map_of c ''username'' of None \<Rightarrow> Inl (key_error ''username'') | Some user \<Rightarrow>
           case map_of c ''password'' of None \<Rightarrow> Inl (key_error ''password'') | Some password \<Rightarrow>
           Inr [(''host'', host), (''port'', port), (''dbname'', dbname), (''user'', user),
                (''password'', password), (''connect_timeout'', PInt 30)]))"

fun get_connection_loop ::
  "world \<Rightarrow> pydict option \<Rightarrow> nat list \<Rightarrow> db_manager \<Rightarrow> (exn + connection option) \<times> db_manager" where
  "get_connection_loop w credentials [] m = (Inr None, m)"
| "get_connection_loop w credentials (attempt # rest) m =
     (case connect_kwargs credentials of
        Inl e \<Rightarrow> (Inl e, m)
      | Inr kwargs \<Rightarrow>
          let m1 = log (Connect kwargs) m in
          case psycopg_connect w (trace m1) of
            Returns u \<Rightarrow>
              (Inr (Some \<lparr>closed = False\<rparr>), m1\<lparr>db_connection := Some \<lparr>closed = False\<rparr>\<rparr>)
          | Raises e \<Rightarrow>
              if is_PsycopgError e then
                if int attempt = max_retries m1 - 1
                then (Inl (Exception (''Failed to connect to database after ''
                        @ str_int (max_retries m1) @ '' attempts: '' @ str_exn e)), m1)
                else get_connection_loop w credentials rest (log (Sleep (2 ^ attempt)) m1)
              else (Inl e, m1))"

definition get_connection :: "world \<Rightarrow> db_manager \<Rightarrow> (exn + connection option) \<times> db_manager" where
  "get_connection w m =
     (if (case db_connection m of None \<Rightarrow> False | Some c \<Rightarrow> \<not> closed c)
      then (Inr (db_connection m), m)
      else
        case get_secret w m of
          (Inl e, m1) \<Rightarrow> (Inl e, m1)
        | (Inr credentials, m1) \<Rightarrow>
            get_connection_loop w credentials [0..<nat (max_retries m1)] m1)"

definition limited_query :: "string \<Rightarrow> int \<Rightarrow> string" where
  \<comment> \<open>the text \<open>execute_query\<close> hands to the cursor\<close>
  "limited_query query limit =
     (let query1 = rstrip_char (CHR '';'') (strip query) in
      if \<not> contains ''LIMIT'' (upper query1)
      then query1 @ '' LIMIT '' @ str_int limit
      else query1)"

definition execute_query ::
  "world \<Rightarrow> string \<Rightarrow> pyval list option \<Rightarrow> int \<Rightarrow> db_manager \<Rightarrow> (exn + pydict list) \<times> db_manager" where
  "execute_query w query params limit m =
     (case get_connection w m of
        (Inl e, m1) \<Rightarrow> (Inl e, m1)
      | (Inr None, m1) \<Rightarrow> (Inl (AttributeError (quoted ''NoneType'' @ '' object has no attribute '' @ quoted ''cursor'')), m1)
      | (Inr (Some conn), m1) \<Rightarrow>
          let m2 = log (Execute (limited_query query limit) params) m1 in
          case cursor_execute w (trace m2) of
            Returns (description, rows) \<Rightarrow>
              (case description of
                 None \<Rightarrow> (Inl (TypeError (quoted ''NoneType'' @ '' object is not iterable'')), m2)
               | Some columns \<Rightarrow> (Inr (map (\<lambda>row. py_dict (zip columns row)) rows), m2))
          | Raises e \<Rightarrow>
              if is_PsycopgError e then
                let m3 = log Rollback m2 in
                case conn_rollback w (trace m3) of
                  Raises e2 \<Rightarrow> (Inl e2, m3)
                | Returns u \<Rightarrow> (Inl (Exception (''Query execution failed: '' @ str_exn e)), m3)
              else (Inl e, m2))"

definition text_block :: "string list \<Rightarrow> string" where
  \<comment> \<open>a triple-quoted literal: each line after the opening quotes starts with a line feed\<close>
  "text_block ls = concat (map (\<lambda>l. newline # l) ls)"

definition TABLE_NAMES_QUERY :: string where
  "TABLE_NAMES_QUERY = text_block
     [''        SELECT table_name '',
      ''        FROM information_schema.tables '',
      ''        WHERE table_schema = '' @ [quote] @ ''public'' @ [quote] @ '' '',
      ''        ORDER BY table_name;'',
      ''        '']"

definition DESCRIBE_TABLE_QUERY :: string where
  "DESCRIBE_TABLE_QUERY = text_block
     [''        SELECT '',
      ''            column_name,'',
      ''            data_type,'',
      ''            is_nullable,'',
      ''            column_default,'',
      ''            character_maximum_length'',
      ''        FROM information_schema.columns '',
      ''        WHERE table_name = %s AND table_schema = '' @ [quote] @ ''public'' @ [quote],
      ''        ORDER BY ordinal_position;'',
      ''        '']"

fun subscript_all :: "string \<Rightarrow> pydict list \<Rightarrow> exn + pyval list" where
  \<comment> \<open>\<open>[row[k] for row in results]\<close>\<close>
  "subscript_all k [] = Inr []"
| "subscript_all k (row # rest) =
     (case map_of row k of
        None \<Rightarrow> Inl (key_error k)
      | Some v \<Rightarrow> (case subscript_all k rest of Inl e \<Rightarrow> Inl e | Inr vs \<Rightarrow> Inr (v # vs)))"

definition get_table_names :: "world \<Rightarrow> db_manager \<Rightarrow> (exn + pyval list) \<times> db_manager" where
  "get_table_names w m =
     (case execute_query w TABLE_NAMES_QUERY None 1000 m of
        (Inl e, m1) \<Rightarrow> (Inl e, m1)
      | (Inr results, m1) \<Rightarrow> (subscript_all ''table_name'' results, m1))"

definition describe_table :: "world \<Rightarrow> string \<Rightarrow> db_manager \<Rightarrow> (exn + pydict list) \<times> db_manager" where
  "describe_table w table_name m =
     execute_query w DESCRIBE_TABLE_QUERY (Some [PStr table_name]) 1000 m"

definition count_table_records :: "world \<Rightarrow> string \<Rightarrow> db_manager \<Rightarrow> (exn + pyval) \<times> db_manager" where
  "count_table_records w table_name m =
     (if \<not> isalnum (replace_char (CHR ''_'') [] table_name)
      then (Inl (ValueError ''Invalid table name''), m)
      else
        let query = ''SELECT COUNT(*) as count FROM '' @ table_name @ '';'' in
        case execute_query w query None 1000 m of
          (Inl e, m1) \<Rightarrow> (Inl e, m1)
        | (Inr [], m1) \<Rightarrow> (Inl (IndexError ''list index out of range''), m1)
        | (Inr (row # rest), m1) \<Rightarrow>
            (case map_of row ''count'' of
               None \<Rightarrow> (Inl (key_error ''count''), m1)
             | Some count \<Rightarrow> (Inr count, m1)))"

section \<open>\<open>src/server.py\<close>: PostgreSQLMCPServer\<close>

record server =
  config :: config
  db_manager :: db_manager

definition new_server :: "config \<Rightarrow> exn + server" where
  \<comment> \<open>\<open>__init__\<close>: the configuration is validated, the manager gets the default
      \<open>max_retries = 3\<close>\<close>
  "new_server c =
     (case validate c of
        Inl e \<Rightarrow> Inl e
      | Inr ok \<Rightarrow>
          (case config.secret_arn c of
             None \<Rightarrow> Inl (ValueError ''SECRET_ARN environment variable is required'')
           | Some arn \<Rightarrow> Inr \<lparr>config = c, db_manager = new_db_manager arn (aws_region c) 3\<rparr>))"

datatype text_content = TextContent (content_type: string) (content_text: string)

definition text_result :: "string \<Rightarrow> text_content list" where
  \<comment> \<open>\<open>[types.TextContent(type="text", text=...)]\<close>\<close>
  "text_result t = [TextContent ''text'' t]"

type_synonym arguments = "string \<rightharpoonup> pyval"

definition dict_get :: "arguments \<Rightarrow> string \<Rightarrow> pyval \<Rightarrow> pyval" where
  \<comment> \<open>\<open>arguments.get(key, default)\<close>\<close>
  "dict_get arguments key dflt = (case arguments key of None \<Rightarrow> dflt | Some v \<Rightarrow> v)"

definition py_min :: "pyval \<Rightarrow> int \<Rightarrow> exn + int" where
  \<comment> \<open>\<open>min(a, b)\<close> with \<open>b\<close> an \<open>int\<close>: it compares \<open>b < a\<close>, which raises unless \<open>a\<close> is a number\<close>
  "py_min a b =
     (case a of
        PInt i \<Rightarrow> Inr (if b < i then b else i)
      | PNone \<Rightarrow> Inl (TypeError (quoted ''<'' @ '' not supported between instances of '' @ quoted ''int''
                         @ '' and '' @ quoted ''NoneType''))
      | PStr s \<Rightarrow> Inl (TypeError (quoted ''<'' @ '' not supported between instances of '' @ quoted ''int''
                          @ '' and '' @ quoted ''str'')))"

definition tool_execute_select ::
  "world \<Rightarrow> arguments \<Rightarrow> server \<Rightarrow> (exn + text_content list) \<times> server" where
  \<comment> \<open>\<open>_execute_select\<close>\<close>
  "tool_execute_select w arguments srv =
     (let query = dict_get arguments ''query'' (PStr []) in
      case py_min (dict_get arguments ''limit'' (PInt 1000)) (max_query_rows (config srv)) of
        Inl e \<Rightarrow> (Inl e, srv)
      | Inr limit \<Rightarrow>
          (case query of
             PStr q \<Rightarrow>
               (case validate_query q of
                  (False, error_msg) \<Rightarrow>
                    (Inr (text_result (''Query validation failed: '' @ error_msg)), srv)
                | (True, error_msg) \<Rightarrow>
                    (case execute_query w q None limit (db_manager srv) of
                       (Inr results, m) \<Rightarrow>
                         (Inr (text_result (''Query executed successfully. Returned ''
                            @ str_nat (length results) @ '' rows:'' @ [newline]
                            @ repr_list (repr_dict w) results)), srv\<lparr>db_manager := m\<rparr>)
                     | (Inl e, m) \<Rightarrow>
                         (Inr (text_result (''Query execution failed: '' @ str_exn e)),
                          srv\<lparr>db_manager := m\<rparr>)))
           | v \<Rightarrow>
               \<comment> \<open>\<open>validate_query\<close> on a value that is not a \<open>str\<close>: a falsy one is an empty
                   query, any other has no \<open>strip\<close>\<close>
               if \<not> truthy v
               then (Inr (text_result (''Query validation failed: '' @ ''Empty query not allowed'')), srv)
               else (Inl (AttributeError (quoted ''int'' @ '' object has no attribute '' @ quoted ''strip'')), srv)))"

definition tool_get_tables ::
  "world \<Rightarrow> arguments \<Rightarrow> server \<Rightarrow> (exn + text_content list) \<times> server" where
  \<comment> \<open>\<open>_get_tables\<close>\<close>
  "tool_get_tables w arguments srv =
     (case get_table_names w (db_manager srv) of
        (Inr tables, m) \<Rightarrow>
          (Inr (text_result (''Database tables:'' @ [newline] @ repr_list (repr_val w) tables)),
           srv\<lparr>db_manager := m\<rparr>)
      | (Inl e, m) \<Rightarrow>
          (Inr (text_result (''Failed to get tables: '' @ str_exn e)), srv\<lparr>db_manager := m\<rparr>))"

definition tool_describe_table ::
  "world \<Rightarrow> arguments \<Rightarrow> server \<Rightarrow> (exn + text_content list) \<times> server" where
  \<comment> \<open>\<open>_describe_table\<close>\<close>
  "tool_describe_table w arguments srv =
     (case dict_get arguments ''table_name'' (PStr []) of
        PStr table_name \<Rightarrow>
          (case sanitize_table_name table_name of
             (False, error_msg) \<Rightarrow>
               (Inr (text_result (''Table name validation failed: '' @ error_msg)), srv)
           | (True, error_msg) \<Rightarrow>
               (case describe_table w table_name (db_manager srv) of
                  (Inr schema, m) \<Rightarrow>
                    (Inr (text_result (''Schema for table '' @ quoted table_name @ '':''
                       @ [newline] @ repr_list (repr_dict w) schema)), srv\<lparr>db_manager := m\<rparr>)
                | (Inl e, m) \<Rightarrow>
                    (Inr (text_result (''Failed to describe table: '' @ str_exn e)),
                     srv\<lparr>db_manager := m\<rparr>)))
      | v \<Rightarrow>
          \<comment> \<open>\<open>sanitize_table_name\<close> on a value that is not a \<open>str\<close>: a falsy one is an empty
              name, and \<open>re.match\<close> raises on any other\<close>
          if \<not> truthy v
          then (Inr (text_result (''Table name validation failed: '' @ ''Table name cannot be empty'')), srv)
          else (Inl (TypeError (''expected string or bytes-like object, got '' @ quoted ''int'')), srv))"

definition tool_count_records ::
  "world \<Rightarrow> arguments \<Rightarrow> server \<Rightarrow> (exn + text_content list) \<times> server" where
  \<comment> \<open>\<open>_count_records\<close>\<close>
  "tool_count_records w arguments srv =
     (case dict_get arguments ''table_name'' (PStr []) of
        PStr table_name \<Rightarrow>
          (case sanitize_table_name table_name of
             (False, error_msg) \<Rightarrow>
               (Inr (text_result (''Table name validation failed: '' @ error_msg)), srv)
           | (True, error_msg) \<Rightarrow>
               (case count_table_records w table_name (db_manager srv) of
                  (Inr count, m) \<Rightarrow>
                    (Inr (text_result (''Table '' @ quoted table_name @ '' has '' @ str_val count
                       @ '' records'')), srv\<lparr>db_manager := m\<rparr>)
                | (Inl e, m) \<Rightarrow>
                    (Inr (text_result (''Failed to count records: '' @ str_exn e)),
                     srv\<lparr>db_manager := m\<rparr>)))
      | v \<Rightarrow>
          if \<not> truthy v
          then (Inr (text_result (''Table name validation failed: '' @ ''Table name cannot be empty'')), srv)
          else (Inl (TypeError (''expected string or bytes-like object, got '' @ quoted ''int'')), srv))"

definition dispatch ::
  "world \<Rightarrow> string \<Rightarrow> arguments \<Rightarrow> server \<Rightarrow> (exn + text_content list) \<times> server" where
  \<comment> \<open>the body of the \<open>try\<close> of \<open>handle_call_tool\<close>\<close>
  "dispatch w name arguments srv =
     (if name = ''execute_select'' then tool_execute_select w arguments srv
      else if name = ''get_tables'' then tool_get_tables w arguments srv
      else if name = ''describe_table'' then tool_describe_table w arguments srv
      else if name = ''count_records'' then tool_count_records w arguments srv
      else (Inl (ValueError (''Unknown tool: '' @ name)), srv))"

definition handle_call_tool ::
  "world \<Rightarrow> string \<Rightarrow> arguments \<Rightarrow> server \<Rightarrow> (exn + text_content list) \<times> server" where
  "handle_call_tool w name arguments srv =
     (case dispatch w name arguments srv of
        (Inl e, srv1) \<Rightarrow> (Inr (text_result (''Error: '' @ str_exn e)), srv1)
      | (Inr result, srv1) \<Rightarrow> (Inr result, srv1))"

section \<open>What a trace shows\<close>

fun executed :: "event list \<Rightarrow> (string \<times> pyval list option) list" where
  "executed [] = []"
| "executed (Execute q p # es) = (q, p) # executed es"
| "executed (e # es) = executed es"

fun sleeps :: "event list \<Rightarrow> int list" where
  "sleeps [] = []"
| "sleeps (Sleep d # es) = d # sleeps es"
| "sleeps (e # es) = sleeps es"

section \<open>Sample inputs\<close>

definition failing_world :: world where
  \<comment> \<open>an outside where every call fails\<close>
  "failing_world =
     \<lparr>get_secret_value = (\<lambda>tr. Raises (ClientError ''access denied'')),
      psycopg_connect = (\<lambda>tr. Raises (PsycopgError ''connection refused'')),
      cursor_execute = (\<lambda>tr. Raises (PsycopgError ''relation does not exist'')),
      conn_rollback = (\<lambda>tr. Returns ()),
      repr_str = quoted\<rparr>"

definition empty_world :: world where
  \<comment> \<open>an outside where every call succeeds and every query gives no rows\<close>
  "empty_world =
     \<lparr>get_secret_value = (\<lambda>tr. Returns [(''host'', PStr ''db''), (''dbname'', PStr ''app''),
                                          (''username'', PStr ''reader''), (''password'', PStr ''pw'')]),
      psycopg_connect = (\<lambda>tr. Returns ()),
      cursor_execute = (\<lambda>tr. Returns (Some [''count''], [])),
      conn_rollback = (\<lambda>tr. Returns ()),
      repr_str = quoted\<rparr>"


definition fresh_manager :: db_manager where
  \<comment> \<open>the manager as \<open>__init__\<close> leaves it\<close>
  "fresh_manager = new_db_manager ''arn:secret'' ''ap-southeast-3'' 3"

definition connected_manager :: db_manager where
  \<comment> \<open>a manager that holds an open connection\<close>
  "connected_manager = fresh_manager\<lparr>db_connection := Some \<lparr>closed = False\<rparr>\<rparr>"

definition sample_server :: "db_manager \<Rightarrow> server" where
  "sample_server m =
     \<lparr>config = \<lparr>config.secret_arn = Some ''arn:secret'', aws_region = ''ap-southeast-3'',
                 mcp_server_name = ''postgres-local-mcp-server'', log_level = ''INFO'',
                 max_query_rows = 1000, connection_timeout = 30\<rparr>,
      db_manager = m\<rparr>"

section \<open>The query validator\<close>

lemma contains_iff_sublist: "contains sub s \<longleftrightarrow> sublist sub s"
  by (induction s) (auto simp: sublist_Cons_right)

lemma sublist_dropWhile:
  assumes "sublist k s" "k \<noteq> []" "\<not> P (hd k)"
  shows "sublist k (dropWhile P s)"
proof -
  from assms(1) obtain ps ss where s: "s = ps @ k @ ss" by (auto simp: sublist_def)
  have "sublist k (dropWhile P (ps @ k @ ss))"
  proof (induction ps)
    case Nil
    from assms(2,3) have "dropWhile P (k @ ss) = k @ ss" by (cases k) auto
    then show ?case by (simp add: sublist_def) (metis append_Nil)
  next
    case (Cons p ps)
    show ?case
    proof (cases "P p")
      case True
      with Cons show ?thesis by simp
    next
      case False
      then have "dropWhile P ((p # ps) @ k @ ss) = (p # ps) @ k @ ss" by simp
      then show ?thesis unfolding sublist_def by blast
    qed
  qed
  with s show ?thesis by simp
qed

lemma sublist_strip:
  assumes "sublist k s" "k \<noteq> []" "\<not> is_space (hd k)" "\<not> is_space (last k)"
  shows "sublist k (strip s)"
proof -
  have 1: "sublist k (lstrip s)"
    unfolding lstrip_def using assms(1-3) by (rule sublist_dropWhile)
  then have "sublist (rev k) (rev (lstrip s))" by (simp add: sublist_rev)
  moreover have "rev k \<noteq> []" using assms(2) by simp
  moreover have "\<not> is_space (hd (rev k))" using assms(2,4) by (simp add: hd_rev)
  ultimately have "sublist (rev k) (dropWhile is_space (rev (lstrip s)))"
    by (rule sublist_dropWhile)
  then have "sublist (rev (rev k)) (rev (dropWhile is_space (rev (lstrip s))))"
    by (simp only: sublist_rev)
  then show ?thesis by (simp add: strip_def rstrip_def)
qed

lemma sublist_upper: "sublist w s \<Longrightarrow> sublist (upper w) (upper s)"
  unfolding sublist_def upper_def by (metis map_append)

lemma blocked_keyword_shape:
  "k \<in> set BLOCKED_KEYWORDS \<Longrightarrow> k \<noteq> [] \<and> \<not> is_space (hd k) \<and> \<not> is_space (last k)"
  by (auto simp: BLOCKED_KEYWORDS_def is_space_def ascii_whitespace_def)


lemma validate_query_accepts_iff:
  "fst (validate_query q) \<longleftrightarrow>
     q \<noteq> [] \<and> strip q \<noteq> [] \<and> prefix ''SELECT'' (strip (upper q)) \<and>
     (\<forall>k\<in>set BLOCKED_KEYWORDS. \<not> contains k (strip (upper q))) \<and>
     \<not> list_ex (\<lambda>p. re_search p q) INJECTION_PATTERNS \<and>
     count_list q (CHR '';'') \<le> 1"
proof (cases "find (\<lambda>k. contains k (strip (upper q))) BLOCKED_KEYWORDS")
  case None
  then have "\<forall>k\<in>set BLOCKED_KEYWORDS. \<not> contains k (strip (upper q))"
    by (simp add: find_None_iff)
  with None show ?thesis by (auto simp: validate_query_def Let_def)
next
  case (Some k)
  then have "\<exists>k\<in>set BLOCKED_KEYWORDS. contains k (strip (upper q))"
    by (metis find_Some_iff nth_mem)
  with Some show ?thesis by (auto simp: validate_query_def Let_def)
qed

text \<open>
  C1. A query that \<open>validate_query\<close> accepts has none of the blocked keywords in its
  upper-cased, stripped text; and a query that holds a blocked keyword anywhere, in any
  mix of upper and lower case, is rejected.
\<close>

theorem validate_query_blocks_keywords:
  assumes "k \<in> set BLOCKED_KEYWORDS"
  shows "(fst (validate_query q) \<longrightarrow> \<not> sublist k (strip (upper q)))
       \<and> (upper w = k \<and> sublist w q \<longrightarrow> \<not> fst (validate_query q))"
proof (intro conjI impI)
  assume "fst (validate_query q)"
  with assms show "\<not> sublist k (strip (upper q))"
    by (simp add: validate_query_accepts_iff contains_iff_sublist)
next
  assume h: "upper w = k \<and> sublist w q"
  then have "sublist k (upper q)" using sublist_upper by blast
  then have "sublist k (strip (upper q))"
    using blocked_keyword_shape [OF assms] by (simp add: sublist_strip)
  with assms show "\<not> fst (validate_query q)"
    by (auto simp: validate_query_accepts_iff contains_iff_sublist)
qed

theorem validate_query_blocks_keywords_witness:
  "''DROP'' \<in> set BLOCKED_KEYWORDS
   \<and> fst (validate_query ''SELECT 1'') \<and> \<not> sublist ''DROP'' (strip (upper ''SELECT 1''))
   \<and> upper ''dRoP'' = ''DROP'' \<and> sublist ''dRoP'' ''select dRoP_count from t''
   \<and> \<not> fst (validate_query ''select dRoP_count from t'')"
proof -
  have k: "''DROP'' \<in> set BLOCKED_KEYWORDS" by (simp add: BLOCKED_KEYWORDS_def)
  have a: "fst (validate_query ''SELECT 1'')" by code_simp
  have u: "upper ''dRoP'' = ''DROP''" by code_simp
  have s: "sublist ''dRoP'' ''select dRoP_count from t''" by code_simp
  from validate_query_blocks_keywords [OF k, where q = "''SELECT 1''"] a
  have 1: "\<not> sublist ''DROP'' (strip (upper ''SELECT 1''))" by blast
  from validate_query_blocks_keywords
    [OF k, where w = "''dRoP''" and q = "''select dRoP_count from t''"] u s
  have 2: "\<not> fst (validate_query ''select dRoP_count from t'')" by blast
  from k a 1 u s 2 show ?thesis by blast
qed



text \<open>
  C9. \<open>validate_query\<close> accepts the two statements \<open>SELECT 1; SELECT 2\<close>: the text has one
  semicolon, the rule on several statements asks for more than one, and no injection
  pattern matches it.
\<close>

theorem validate_query_accepts_two_statements:
  "validate_query ''SELECT 1; SELECT 2'' = (True, [])
   \<and> count_list ''SELECT 1; SELECT 2'' (CHR '';'') = 1
   \<and> \<not> list_ex (\<lambda>pattern. re_search pattern ''SELECT 1; SELECT 2'') INJECTION_PATTERNS"
  by code_simp

section \<open>The table name validator\<close>

lemma matches_at_eol: "matches_at [Eol] = (\<lambda>r. r = [] \<or> r = [newline])"
  by (rule ext) simp

lemma star_rests_eol:
  "list_ex (\<lambda>r. r = [] \<or> r = [newline]) (star_rests P cs) \<longleftrightarrow>
     list_all P cs \<or> (\<exists>t. cs = t @ [newline] \<and> list_all P t)"
  by (induction cs) (auto simp: Cons_eq_append_conv)

lemma table_name_pattern_iff:
  "re_match TABLE_NAME_PATTERN s \<longleftrightarrow>
     (\<exists>c cs. s = c # cs \<and> in_cls IdentStart c \<and>
        (list_all (in_cls IdentRest) cs
         \<or> (\<exists>t. cs = t @ [newline] \<and> list_all (in_cls IdentRest) t)))"
  by (cases s)
    (simp_all add: re_match_def TABLE_NAME_PATTERN_def matches_at_eol star_rests_eol)

lemma sanitize_table_name_accepts_iff:
  "fst (sanitize_table_name s) \<longleftrightarrow>
     length s \<le> 63 \<and>
     (\<exists>c cs. s = c # cs \<and> in_cls IdentStart c \<and>
        (list_all (in_cls IdentRest) cs
         \<or> (\<exists>t. cs = t @ [newline] \<and> list_all (in_cls IdentRest) t)))"
  by (auto simp: sanitize_table_name_def table_name_pattern_iff)

lemma sanitize_table_name_identifier:
  assumes "in_cls IdentStart c" and "list_all (in_cls IdentRest) cs" and "length (c # cs) \<le> 63"
  shows "sanitize_table_name (c # cs) = (True, [])"
  using assms by (simp add: sanitize_table_name_def table_name_pattern_iff)

lemma sanitize_table_name_rejects:
  "\<not> fst (sanitize_table_name [])"
  "is_digit c \<Longrightarrow> \<not> fst (sanitize_table_name (c # cs))"
  "CHR ''-'' \<in> set s \<Longrightarrow> \<not> fst (sanitize_table_name s)"
  "CHR ''.'' \<in> set s \<Longrightarrow> \<not> fst (sanitize_table_name s)"
  "length s > 63 \<Longrightarrow> \<not> fst (sanitize_table_name s)"
proof -
  show "\<not> fst (sanitize_table_name [])" by (simp add: sanitize_table_name_def)
  show "\<not> fst (sanitize_table_name s)" if "length s > 63"
    using that by (simp add: sanitize_table_name_accepts_iff)
  have d: "\<not> in_cls IdentStart c" if "is_digit c"
    using that
    by (auto simp: is_digit_def is_lower_def is_upper_def ascii_digits_def ascii_lowercase_def
        ascii_uppercase_def)
  then show "\<not> fst (sanitize_table_name (c # cs))" if "is_digit c"
    using that by (simp add: sanitize_table_name_accepts_iff)
  have x: "\<not> fst (sanitize_table_name s)"
    if "x \<in> set s" and "\<not> in_cls IdentStart x" and "\<not> in_cls IdentRest x" and "x \<noteq> newline"
    for x
    using that by (auto simp: sanitize_table_name_accepts_iff list_all_iff)
  have h: "\<not> in_cls IdentStart (CHR ''-'')" "\<not> in_cls IdentRest (CHR ''-'')"
    "CHR ''-'' \<noteq> newline" "\<not> in_cls IdentStart (CHR ''.'')" "\<not> in_cls IdentRest (CHR ''.'')"
    "CHR ''.'' \<noteq> newline"
    by code_simp+
  show "\<not> fst (sanitize_table_name s)" if "CHR ''-'' \<in> set s"
    using that x h by blast
  show "\<not> fst (sanitize_table_name s)" if "CHR ''.'' \<in> set s"
    using that x h by blast
qed

text \<open>
  C5. \<open>sanitize_table_name\<close> accepts the name \<open>users\<close> followed by a line feed: \<open>$\<close>
  matches before a line feed that ends the text. The line feed is not a character of
  \<open>[a-zA-Z0-9_]\<close>, so the name is not one of letters, digits and underscores only.
\<close>

theorem sanitize_table_name_trailing_newline:
  "sanitize_table_name (''users'' @ [newline]) = (True, [])
   \<and> \<not> in_cls IdentRest newline
   \<and> \<not> list_all (in_cls IdentRest) (''users'' @ [newline])"
  by code_simp

section \<open>The database manager\<close>

lemma executed_append: "executed (a @ b) = executed a @ executed b"
  by (induction a rule: executed.induct) simp_all





lemma get_connection_open:
  "db_connection m = Some c \<Longrightarrow> \<not> closed c \<Longrightarrow> get_connection w m = (Inr (Some c), m)"
  by (simp add: get_connection_def)


lemma execute_query_open_executed:
  assumes "db_connection m = Some c" "\<not> closed c"
  shows "executed (trace (snd (execute_query w q params limit m)))
       = executed (trace m) @ [(limited_query q limit, params)]"
  using assms
  by (auto simp: execute_query_def get_connection_open Let_def log_def executed_append
      split: reply.splits option.splits prod.splits)

lemma sleeps_append: "sleeps (a @ b) = sleeps a @ sleeps b"
  by (induction a rule: sleeps.induct) simp_all

text \<open>
  C4 (amended). With \<open>max_retries = 3\<close>, no credentials cached, and a secrets service that
  answers every call with a \<open>ClientError\<close>, \<open>get_secret\<close> calls the service three times,
  sleeps 1 second after the first failure and 2 seconds after the second, and at the third
  failure raises \<open>Exception("Failed to retrieve secret after 3 attempts: ...")\<close> with the text
  of that last \<open>ClientError\<close>, without a third sleep. The manager's cached credentials are
  as before.
\<close>

theorem get_secret_three_failures:
  assumes "max_retries m = 3"
    and "db_credentials m = None \<or> db_credentials m = Some []"
    and "\<forall>tr. \<exists>msg. get_secret_value w tr = Raises (ClientError msg)"
  shows "\<exists>msg. get_secret w m =
           (Inl (Exception (''Failed to retrieve secret after 3 attempts: '' @ msg)),
            m\<lparr>trace := trace m @ [GetSecretValue (secret_arn m), Sleep 1,
                                    GetSecretValue (secret_arn m), Sleep 2,
                                    GetSecretValue (secret_arn m)]\<rparr>)
         \<and> get_secret_value w (trace (snd (get_secret w m))) = Raises (ClientError msg)
         \<and> sleeps (trace (snd (get_secret w m))) = sleeps (trace m) @ [1, 2]
         \<and> db_credentials (snd (get_secret w m)) = db_credentials m"
proof -
  let ?g = "GetSecretValue (secret_arn m)"
  from assms(3) obtain e1 where e1: "get_secret_value w (trace m @ [?g]) = Raises (ClientError e1)"
    by blast
  from assms(3) obtain e2 where e2:
    "get_secret_value w (trace m @ [?g, Sleep 1, ?g]) = Raises (ClientError e2)"
    by blast
  from assms(3) obtain e3 where e3:
    "get_secret_value w (trace m @ [?g, Sleep 1, ?g, Sleep 2, ?g]) = Raises (ClientError e3)"
    by blast
  have u: "[0..<3::nat] = [0, 1, 2]" by (simp add: upt_rec)
  have s3: "str_int 3 = ''3''" by code_simp
  have c: "\<not> (case db_credentials m of None \<Rightarrow> False | Some c \<Rightarrow> c \<noteq> [])"
    using assms(2) by auto
  have r: "get_secret w m =
           (Inl (Exception (''Failed to retrieve secret after 3 attempts: '' @ e3)),
            m\<lparr>trace := trace m @ [?g, Sleep 1, ?g, Sleep 2, ?g]\<rparr>)"
    unfolding get_secret_def using c assms(1) e1 e2 e3
    by (simp add: u s3 log_def Let_def)
  have "sleeps (trace (snd (get_secret w m))) = sleeps (trace m) @ [1, 2]"
    by (simp add: r sleeps_append)
  with r e3 show ?thesis by simp
qed

theorem get_secret_three_failures_witness:
  "max_retries fresh_manager = 3 \<and> db_credentials fresh_manager = None
   \<and> get_secret failing_world fresh_manager =
       (Inl (Exception ''Failed to retrieve secret after 3 attempts: access denied''),
        fresh_manager\<lparr>trace := [GetSecretValue ''arn:secret'', Sleep 1,
                                 GetSecretValue ''arn:secret'', Sleep 2,
                                 GetSecretValue ''arn:secret'']\<rparr>)
   \<and> sleeps (trace (snd (get_secret failing_world fresh_manager))) = [1, 2]
   \<and> db_credentials (snd (get_secret failing_world fresh_manager)) = None"
proof -
  have 1: "max_retries fresh_manager = 3" by (simp add: fresh_manager_def new_db_manager_def)
  have 2: "db_credentials fresh_manager = None \<or> db_credentials fresh_manager = Some []"
    by (simp add: fresh_manager_def new_db_manager_def)
  have 3: "\<forall>tr. \<exists>msg. get_secret_value failing_world tr = Raises (ClientError msg)"
    by (simp add: failing_world_def)
  from get_secret_three_failures [OF 1 2 3] show ?thesis
    by (auto simp: fresh_manager_def new_db_manager_def failing_world_def)
qed

text \<open>
  The sleeps of three failed attempts are 1 and 2 seconds, not 1, 2 and 4.
\<close>

theorem get_secret_no_third_sleep:
  "max_retries fresh_manager = 3
   \<and> sleeps (trace (snd (get_secret failing_world fresh_manager))) = [1, 2]
   \<and> sleeps (trace (snd (get_secret failing_world fresh_manager))) \<noteq> [1, 2, 4]"
  by code_simp



section \<open>The tool handlers\<close>

lemma sanitize_table_name_snd: "fst (sanitize_table_name s) \<Longrightarrow> sanitize_table_name s = (True, [])"
  by (auto simp: sanitize_table_name_def split: if_splits)

lemma validate_query_snd: "fst (validate_query q) \<Longrightarrow> validate_query q = (True, [])"
  by (auto simp: validate_query_def Let_def split: if_splits option.splits)

text \<open>
  C8. When \<open>sanitize_table_name\<close> rejects the table name (the empty name when the
  arguments give none), \<open>describe_table\<close> and
  \<open>count_records\<close> answer with the text "Table name validation failed: " and the reason, and
  leave the server as it was: nothing is added to the trace, so no secret is fetched, no
  connection is made and no statement is executed.
\<close>

theorem rejected_table_name_no_database_call:
  assumes "dict_get arguments ''table_name'' (PStr []) = PStr name"
    and "\<not> fst (sanitize_table_name name)"
  shows "tool_describe_table w arguments srv =
           (Inr (text_result (''Table name validation failed: '' @ snd (sanitize_table_name name))),
            srv)
       \<and> tool_count_records w arguments srv =
           (Inr (text_result (''Table name validation failed: '' @ snd (sanitize_table_name name))),
            srv)
       \<and> handle_call_tool w ''describe_table'' arguments srv =
           (Inr (text_result (''Table name validation failed: '' @ snd (sanitize_table_name name))),
            srv)
       \<and> handle_call_tool w ''count_records'' arguments srv =
           (Inr (text_result (''Table name validation failed: '' @ snd (sanitize_table_name name))),
            srv)
       \<and> trace (db_manager (snd (handle_call_tool w ''describe_table'' arguments srv)))
           = trace (db_manager srv)
       \<and> trace (db_manager (snd (handle_call_tool w ''count_records'' arguments srv)))
           = trace (db_manager srv)"
proof -
  from assms(2) obtain msg where p: "sanitize_table_name name = (False, msg)"
    by (cases "sanitize_table_name name") auto
  have d: "tool_describe_table w arguments srv =
           (Inr (text_result (''Table name validation failed: '' @ msg)), srv)"
    by (simp add: tool_describe_table_def assms(1) p)
  have c: "tool_count_records w arguments srv =
           (Inr (text_result (''Table name validation failed: '' @ msg)), srv)"
    by (simp add: tool_count_records_def assms(1) p)
  show ?thesis
    by (simp add: handle_call_tool_def dispatch_def d c p)
qed

theorem rejected_table_name_no_database_call_witness:
  "\<not> fst (sanitize_table_name ''public.users'')
   \<and> tool_describe_table failing_world [''table_name'' \<mapsto> PStr ''public.users'']
        (sample_server fresh_manager) =
       (Inr (text_result ''Table name validation failed: Invalid table name format''),
        sample_server fresh_manager)
   \<and> tool_count_records failing_world [''table_name'' \<mapsto> PStr ''public.users'']
        (sample_server fresh_manager) =
       (Inr (text_result ''Table name validation failed: Invalid table name format''),
        sample_server fresh_manager)
   \<and> trace (db_manager (snd (handle_call_tool failing_world ''describe_table''
        [''table_name'' \<mapsto> PStr ''public.users''] (sample_server fresh_manager)))) = []
   \<and> handle_call_tool failing_world ''count_records'' Map.empty (sample_server fresh_manager) =
       (Inr (text_result ''Table name validation failed: Table name cannot be empty''),
        sample_server fresh_manager)"
proof -
  have a: "dict_get [''table_name'' \<mapsto> PStr ''public.users''] ''table_name'' (PStr [])
      = PStr ''public.users''"
    by (simp add: dict_get_def)
  have s: "sanitize_table_name ''public.users'' = (False, ''Invalid table name format'')"
    by code_simp
  then have r: "\<not> fst (sanitize_table_name ''public.users'')" by simp
  have t: "trace (db_manager (sample_server fresh_manager)) = []"
    by (simp add: sample_server_def fresh_manager_def new_db_manager_def)
  have b: "dict_get Map.empty ''table_name'' (PStr []) = PStr []"
    by (simp add: dict_get_def)
  have e: "sanitize_table_name [] = (False, ''Table name cannot be empty'')"
    by (simp add: sanitize_table_name_def)
  then have n: "\<not> fst (sanitize_table_name [])" by simp
  from rejected_table_name_no_database_call
    [where arguments = "[''table_name'' \<mapsto> PStr ''public.users'']" and name = "''public.users''"
       and w = failing_world and srv = "sample_server fresh_manager", OF a r]
  have 1: "tool_describe_table failing_world [''table_name'' \<mapsto> PStr ''public.users'']
        (sample_server fresh_manager) =
       (Inr (text_result ''Table name validation failed: Invalid table name format''),
        sample_server fresh_manager)
   \<and> tool_count_records failing_world [''table_name'' \<mapsto> PStr ''public.users'']
        (sample_server fresh_manager) =
       (Inr (text_result ''Table name validation failed: Invalid table name format''),
        sample_server fresh_manager)
   \<and> trace (db_manager (snd (handle_call_tool failing_world ''describe_table''
        [''table_name'' \<mapsto> PStr ''public.users''] (sample_server fresh_manager)))) = []"
    by (simp add: s t)
  from rejected_table_name_no_database_call
    [where arguments = Map.empty and name = "[]" and w = failing_world
       and srv = "sample_server fresh_manager", OF b n]
  have 2: "handle_call_tool failing_world ''count_records'' Map.empty (sample_server fresh_manager) =
       (Inr (text_result ''Table name validation failed: Table name cannot be empty''),
        sample_server fresh_manager)"
    by (simp add: e)
  from r 1 2 show ?thesis by simp
qed

lemma underscores_replace:
  "list_all (\<lambda>c. c = CHR ''_'') name \<Longrightarrow> replace_char (CHR ''_'') [] name = []"
  by (induction name) (simp_all add: replace_char_def)

lemma underscores_ident:
  "list_all (\<lambda>c. c = CHR ''_'') name \<Longrightarrow> list_all (in_cls IdentRest) name"
  by (induction name) simp_all

text \<open>
  C10 (amended). For a table name of one to 63 underscores and nothing else,
  \<open>sanitize_table_name\<close> accepts the name and \<open>count_table_records\<close> raises
  \<open>ValueError("Invalid table name")\<close> with the manager, trace included, as it was; the
  \<open>count_records\<close> operation answers "Failed to count records: Invalid table name" and
  leaves the server as it was.
\<close>

theorem underscore_names_fail_inner_check:
  assumes "name \<noteq> []" and "list_all (\<lambda>c. c = CHR ''_'') name" and "length name \<le> 63"
  shows "sanitize_table_name name = (True, [])
       \<and> count_table_records w name m = (Inl (ValueError ''Invalid table name''), m)
       \<and> (arguments ''table_name'' = Some (PStr name) \<longrightarrow>
            tool_count_records w arguments srv =
              (Inr (text_result ''Failed to count records: Invalid table name''), srv)
            \<and> handle_call_tool w ''count_records'' arguments srv =
              (Inr (text_result ''Failed to count records: Invalid table name''), srv))"
proof -
  from assms(1) obtain c cs where n: "name = c # cs" by (cases name) auto
  with assms(2) have "in_cls IdentStart c" and "list_all (in_cls IdentRest) cs"
    using underscores_ident [of cs] by simp_all
  with n assms(3) have "fst (sanitize_table_name name)"
    by (simp add: sanitize_table_name_accepts_iff)
  then have s: "sanitize_table_name name = (True, [])" by (rule sanitize_table_name_snd)
  have r: "count_table_records w name m' = (Inl (ValueError ''Invalid table name''), m')" for m'
    using assms(2) by (simp add: count_table_records_def underscores_replace isalnum_def)
  have t: "arguments ''table_name'' = Some (PStr name) \<Longrightarrow>
        tool_count_records w arguments srv =
          (Inr (text_result ''Failed to count records: Invalid table name''), srv)"
    by (simp add: tool_count_records_def dict_get_def s r)
  then have "arguments ''table_name'' = Some (PStr name) \<Longrightarrow>
        handle_call_tool w ''count_records'' arguments srv =
          (Inr (text_result ''Failed to count records: Invalid table name''), srv)"
    by (simp add: handle_call_tool_def dispatch_def)
  with s r t show ?thesis by blast
qed

theorem underscore_names_fail_inner_check_witness:
  "sanitize_table_name ''_'' = (True, [])
   \<and> count_table_records empty_world ''_'' connected_manager
       = (Inl (ValueError ''Invalid table name''), connected_manager)
   \<and> tool_count_records empty_world [''table_name'' \<mapsto> PStr ''_'']
        (sample_server connected_manager)
       = (Inr (text_result ''Failed to count records: Invalid table name''),
          sample_server connected_manager)
   \<and> handle_call_tool empty_world ''count_records'' [''table_name'' \<mapsto> PStr ''_'']
        (sample_server connected_manager)
       = (Inr (text_result ''Failed to count records: Invalid table name''),
          sample_server connected_manager)"
proof -
  have 1: "''_'' \<noteq> []" by simp
  have 2: "list_all (\<lambda>c. c = CHR ''_'') ''_''" by simp
  have 3: "length ''_'' \<le> 63" by simp
  have a: "[''table_name'' \<mapsto> PStr ''_''] ''table_name'' = Some (PStr ''_'')" by simp
  from underscore_names_fail_inner_check
    [where name = "''_''" and w = empty_world and m = connected_manager
       and arguments = "[''table_name'' \<mapsto> PStr ''_'']"
       and srv = "sample_server connected_manager", OF 1 2 3] a
  show ?thesis by blast
qed

text \<open>
  A name of 64 underscores consists of underscores only and \<open>sanitize_table_name\<close>
  rejects it as too long.
\<close>

theorem long_underscore_name_rejected:
  "list_all (\<lambda>c. c = CHR ''_'') (replicate 64 (CHR ''_''))
   \<and> sanitize_table_name (replicate 64 (CHR ''_'')) = (False, ''Table name too long'')"
  by code_simp

text \<open>
  C3. For a query the validator accepts, \<open>_execute_select\<close> is \<open>execute_query\<close> called
  with the smaller of the requested limit (1000 when the arguments give none) and
  \<open>max_query_rows\<close>, its outcome turned into the reply. With 5000 requested and a maximum
  of 1000 the statement executed ends in \<open>LIMIT 1000\<close>.
\<close>

theorem execute_select_effective_limit:
  assumes "arguments ''query'' = Some (PStr q)" and "fst (validate_query q)"
    and "arguments ''limit'' = None \<and> l = 1000 \<or> arguments ''limit'' = Some (PInt l)"
  shows "tool_execute_select w arguments srv =
           (case execute_query w q None (min l (max_query_rows (config srv))) (db_manager srv) of
              (Inr results, m) \<Rightarrow>
                (Inr (text_result (''Query executed successfully. Returned ''
                   @ str_nat (length results) @ '' rows:'' @ [newline]
                   @ repr_list (repr_dict w) results)), srv\<lparr>db_manager := m\<rparr>)
            | (Inl e, m) \<Rightarrow>
                (Inr (text_result (''Query execution failed: '' @ str_exn e)),
                 srv\<lparr>db_manager := m\<rparr>))"
proof -
  from assms(2) have v: "validate_query q = (True, [])" by (rule validate_query_snd)
  from assms(3) have p: "py_min (dict_get arguments ''limit'' (PInt 1000)) (max_query_rows (config srv))
      = Inr (min l (max_query_rows (config srv)))"
    by (auto simp: py_min_def dict_get_def min_def)
  have g: "dict_get arguments ''query'' (PStr []) = PStr q"
    by (simp add: dict_get_def assms(1))
  show ?thesis
    by (simp add: tool_execute_select_def Let_def p v g)
qed

theorem execute_select_effective_limit_witness:
  "fst (validate_query ''SELECT 1'')
   \<and> executed (trace (db_manager (snd (tool_execute_select empty_world
        [''query'' \<mapsto> PStr ''SELECT 1'', ''limit'' \<mapsto> PInt 5000]
        (sample_server connected_manager))))) = [(''SELECT 1 LIMIT 1000'', None)]
   \<and> executed (trace (db_manager (snd (tool_execute_select empty_world
        [''query'' \<mapsto> PStr ''SELECT 1''] (sample_server connected_manager)))))
       = [(''SELECT 1 LIMIT 1000'', None)]"
proof -
  have v: "fst (validate_query ''SELECT 1'')" by code_simp
  have c: "db_connection connected_manager = Some \<lparr>closed = False\<rparr>"
    by (simp add: connected_manager_def fresh_manager_def new_db_manager_def)
  have t: "executed (trace connected_manager) = []"
    by (simp add: connected_manager_def fresh_manager_def new_db_manager_def)
  have lq: "limited_query ''SELECT 1'' 1000 = ''SELECT 1 LIMIT 1000''" by code_simp
  have x: "executed (trace (snd (execute_query empty_world ''SELECT 1'' None 1000 connected_manager)))
      = [(''SELECT 1 LIMIT 1000'', None)]"
    using execute_query_open_executed [OF c, of empty_world "''SELECT 1''" None 1000]
    by (simp add: t lq)
  have mx: "max_query_rows (config (sample_server connected_manager)) = 1000"
       "db_manager (sample_server connected_manager) = connected_manager"
    by (simp_all add: sample_server_def)
  have a1: "[''query'' \<mapsto> PStr ''SELECT 1'', ''limit'' \<mapsto> PInt 5000] ''query''
      = Some (PStr ''SELECT 1'')" by simp
  have a2: "[''query'' \<mapsto> PStr ''SELECT 1'', ''limit'' \<mapsto> PInt 5000] ''limit'' = None \<and> 5000 = (1000::int)
      \<or> [''query'' \<mapsto> PStr ''SELECT 1'', ''limit'' \<mapsto> PInt 5000] ''limit'' = Some (PInt 5000)"
    by simp
  have b1: "[''query'' \<mapsto> PStr ''SELECT 1''] ''query'' = Some (PStr ''SELECT 1'')" by simp
  have b2: "[''query'' \<mapsto> PStr ''SELECT 1''] ''limit'' = None \<and> 1000 = (1000::int)
      \<or> [''query'' \<mapsto> PStr ''SELECT 1''] ''limit'' = Some (PInt 1000)"
    by simp
  have r1: "executed (trace (db_manager (snd (tool_execute_select empty_world
        [''query'' \<mapsto> PStr ''SELECT 1'', ''limit'' \<mapsto> PInt 5000]
        (sample_server connected_manager))))) = [(''SELECT 1 LIMIT 1000'', None)]"
    using execute_select_effective_limit
      [where arguments = "[''query'' \<mapsto> PStr ''SELECT 1'', ''limit'' \<mapsto> PInt 5000]"
         and q = "''SELECT 1''" and l = 5000 and w = empty_world
         and srv = "sample_server connected_manager", OF a1 v a2] x
    by (simp add: mx split: prod.splits sum.splits)
  have r2: "executed (trace (db_manager (snd (tool_execute_select empty_world
        [''query'' \<mapsto> PStr ''SELECT 1''] (sample_server connected_manager)))))
       = [(''SELECT 1 LIMIT 1000'', None)]"
    using execute_select_effective_limit
      [where arguments = "[''query'' \<mapsto> PStr ''SELECT 1'']"
         and q = "''SELECT 1''" and l = 1000 and w = empty_world
         and srv = "sample_server connected_manager", OF b1 v b2] x
    by (simp add: mx split: prod.splits sum.splits)
  from v r1 r2 show ?thesis by simp
qed











end
